theory Spec2Isabelle
  imports Main "HOL-Library.Signed_Division" "HOL-Library.Monad_Syntax"
begin

section \<open>The piano roll of the Arduino pitch detector (pianoroll.cpp)\<close>

subsection \<open>The integer types\<close>

text \<open>
  pianoroll.cpp computes in the integer types \<open>xCoordinate_t\<close>, \<open>yCoordinate_t\<close>,
  \<open>segmentPitch_t\<close>, \<open>segmentRelTime_t\<close> and \<open>absoluteTime_t\<close>. Their typedefs are in
  headers (coordinate_t.h, segmentbuf.h, sample_t.h) that are not part of the sources, so
  the types are a parameter of the model: each is either wide enough for every value
  (\<open>None\<close>) or an unsigned type of \<open>n\<close> bits, which wraps (\<open>Some n\<close>). A value is converted
  where the source stores it in a variable of the type, returns it as one or casts it
  to one; sums, differences and products of times are computed in \<open>absoluteTime_t\<close>.
  Expressions over coordinates, pitches and relative times are computed in \<open>int\<close> after
  promotion and are taken exactly. Arguments of a function are values of their types.
\<close>

definition conv :: "nat option \<Rightarrow> int \<Rightarrow> int" where
  "conv b v = (case b of None \<Rightarrow> v | Some n \<Rightarrow> v mod 2 ^ n)"

definition representable :: "nat option \<Rightarrow> int \<Rightarrow> bool" where
  "representable b v = (conv b v = v)"

record ctypes =
  xCoordinate_bits :: "nat option"
  yCoordinate_bits :: "nat option"
  segmentPitch_bits :: "nat option"
  segmentRelTime_bits :: "nat option"
  absoluteTime_bits :: "nat option"

definition xCoordinate_t :: "ctypes \<Rightarrow> int \<Rightarrow> int" where
  "xCoordinate_t ty v = conv (xCoordinate_bits ty) v"

definition yCoordinate_t :: "ctypes \<Rightarrow> int \<Rightarrow> int" where
  "yCoordinate_t ty v = conv (yCoordinate_bits ty) v"

definition segmentPitch_t :: "ctypes \<Rightarrow> int \<Rightarrow> int" where
  "segmentPitch_t ty v = conv (segmentPitch_bits ty) v"

definition segmentRelTime_t :: "ctypes \<Rightarrow> int \<Rightarrow> int" where
  "segmentRelTime_t ty v = conv (segmentRelTime_bits ty) v"

definition absoluteTime_t :: "ctypes \<Rightarrow> int \<Rightarrow> int" where
  "absoluteTime_t ty v = conv (absoluteTime_bits ty) v"

text \<open>Types that are wide enough for every value.\<close>

definition wide_types :: ctypes where
  "wide_types = \<lparr>xCoordinate_bits = None, yCoordinate_bits = None, segmentPitch_bits = None,
                 segmentRelTime_bits = None, absoluteTime_bits = None\<rparr>"

text \<open>
  The types that the platform named in the file header (Arduino UNO R3) and the names
  suggest: \<open>uint_least8_t\<close> coordinates and pitches, 16-bit relative times, and
  \<open>unsigned long\<close>, the type of \<open>millis()\<close>, for absolute times.
\<close>

definition avr_types :: ctypes where
  "avr_types = \<lparr>xCoordinate_bits = Some 8, yCoordinate_bits = Some 8, segmentPitch_bits = Some 8,
                segmentRelTime_bits = Some 16, absoluteTime_bits = Some 32\<rparr>"

subsection \<open>C arithmetic\<close>

text \<open>Division is C's: it truncates towards zero, and dividing by zero has no defined
  result (\<open>None\<close>).\<close>

definition c_div :: "int \<Rightarrow> int \<Rightarrow> int option" where
  "c_div a b = (if b = 0 then None else Some (a sdiv b))"

text \<open>The macro \<open>min(a,b)\<close> of Arduino.h: \<open>((a)<(b)?(a):(b))\<close>.\<close>

definition arduino_min :: "int \<Rightarrow> int \<Rightarrow> int" where
  "arduino_min a b = (if a < b then a else b)"

subsection \<open>Constants and process state\<close>

type_synonym color_t = int

definition COLOR_NOTESTART :: color_t where "COLOR_NOTESTART = 0xF800"
definition COLOR_NOTE :: color_t where "COLOR_NOTE = 0x0700"
definition COLOR_CURSOR :: color_t where "COLOR_CURSOR = 0x001F"
definition COLOR_ROLLC :: color_t where "COLOR_ROLLC = 0x2104"
definition COLOR_ROLLG :: color_t where "COLOR_ROLLG = 0xC618"
definition COLOR_ROLLOTHER :: color_t where "COLOR_ROLLOTHER = 0xF79E"
definition COLOR_BG :: color_t where "COLOR_BG = 0xFFFF"

definition CHAR_WIDTH :: int where "CHAR_WIDTH = 6"
definition CHAR_HEIGHT :: int where "CHAR_HEIGHT = 8"
definition X_FIRSTNOTE :: int where "X_FIRSTNOTE = 2 * CHAR_WIDTH"

text \<open>
  \<open>PITCH_MIN\<close> and \<open>PITCH_MAX\<close> are \<open>Pitch::freq2pitch\<close> of the configured frequency
  range, and \<open>MIN_SEGMENT_DURATION\<close> is a constant of config.h; pitch.h and config.h are
  not among the sources, so the three values are parameters of the model.
\<close>

record config =
  PITCH_MIN :: int
  PITCH_MAX :: int
  MIN_SEGMENT_DURATION :: int

record display_t =
  width :: int
  height :: int

record distance_t =
  pitch2pitch :: int
  bottom2loPitch :: int

text \<open>The file-scope variables \<open>_display\<close>, \<open>_distance\<close>, \<open>_msecPerPixel\<close>,
  \<open>_msecOnScreen\<close> and \<open>_msecStart\<close>.\<close>

record globals =
  display :: display_t
  distance :: distance_t
  msecPerPixel :: int
  msecOnScreen :: int
  msecStart :: int

subsection \<open>Geometry\<close>


definition time2x :: "ctypes \<Rightarrow> globals \<Rightarrow> int \<Rightarrow> int \<Rightarrow> int option" where
  "time2x ty g t t0 =
     do {
       distance \<leftarrow> (if absoluteTime_t ty (t - msecStart g) > t0
                    then map_option (xCoordinate_t ty)
                           (c_div (absoluteTime_t ty (absoluteTime_t ty (t - msecStart g) - t0))
                                  (msecPerPixel g))
                    else Some 0);
       Some (xCoordinate_t ty (X_FIRSTNOTE + distance))
     }"

definition pitch2y :: "ctypes \<Rightarrow> config \<Rightarrow> globals \<Rightarrow> int \<Rightarrow> int" where
  "pitch2y ty cfg g pitch =
     (let diff = yCoordinate_t ty ((pitch - PITCH_MIN cfg) * pitch2pitch (distance g))
      in yCoordinate_t ty (height (display g) - bottom2loPitch (distance g) - diff))"

subsection \<open>Drawing commands\<close>

text \<open>
  The calls made on the display driver \<open>_tft\<close> (Adafruit\_ST7735), in the order in which
  they are made. The arguments are those of \<open>fillRect(x, y, w, h, color)\<close>,
  \<open>fillScreen(color)\<close>, \<open>drawFastHLine(x, y, w, color)\<close>,
  \<open>drawFastVLine(x, y, h, color)\<close> and \<open>drawChar(x, y, c, color, bg, size)\<close>.
\<close>

datatype cmd =
    FillRect int int int int color_t
  | FillScreen color_t
  | DrawFastHLine int int int color_t
  | DrawFastVLine int int int color_t
  | DrawChar int int int color_t color_t int

text \<open>
  The enumerators \<open>noteNr_t::C\<close> and \<open>noteNr_t::G\<close> are declared in pitch.h, which is
  not among the sources; they are the pitch classes 0 and 7 of the chromatic scale
  counted from C.
\<close>

definition noteNr_C :: int where "noteNr_C = 0"
definition noteNr_G :: int where "noteNr_G = 7"

subsection \<open>The background grid\<close>

text \<open>One pass of the body of the \<open>for\<close> loop of \<open>_displayRoll\<close>, for the pitch \<open>ii\<close>.\<close>

definition displayRoll_row :: "ctypes \<Rightarrow> config \<Rightarrow> globals \<Rightarrow> int \<Rightarrow> int \<Rightarrow> int \<Rightarrow> cmd list" where
  "displayRoll_row ty cfg g xLeft xRight ii =
     (let nr = ii smod 12;
          isC = (nr = noteNr_C);
          isG = (nr = noteNr_G);
          color = (if isC then COLOR_ROLLC else if isG then COLOR_ROLLG else COLOR_ROLLOTHER);
          y = pitch2y ty cfg g ii
      in (if xLeft = 0
          then (if isC \<or> isG
                then (let octave = ii sdiv 12;
                          cY = yCoordinate_t ty (y - CHAR_HEIGHT sdiv 2 + 1)
                      in [DrawChar 0 cY (if isC then 67 else 71) color color 1,
                          DrawChar CHAR_WIDTH cY (48 + octave) color color 1])
                else [])
               @ [DrawFastHLine X_FIRSTNOTE y (xRight - xLeft) color]
          else [DrawFastHLine xLeft y (xRight - xLeft) color]))"

text \<open>The \<open>for\<close> loop. Its counter \<open>ii\<close> is taken not to wrap: \<open>PITCH_MAX\<close> is below the
  largest value of \<open>segmentPitch_t\<close>.\<close>

function displayRoll_loop :: "ctypes \<Rightarrow> config \<Rightarrow> globals \<Rightarrow> int \<Rightarrow> int \<Rightarrow> int \<Rightarrow> cmd list" where
  "displayRoll_loop ty cfg g xLeft xRight ii =
     (if ii \<le> PITCH_MAX cfg
      then displayRoll_row ty cfg g xLeft xRight ii @ displayRoll_loop ty cfg g xLeft xRight (ii + 1)
      else [])"
  by pat_completeness auto
termination
  by (relation "measure (\<lambda>(ty, cfg, g, xLeft, xRight, ii). nat (PITCH_MAX cfg + 1 - ii))") auto

declare displayRoll_loop.simps [simp del]

definition displayRoll :: "ctypes \<Rightarrow> config \<Rightarrow> globals \<Rightarrow> int \<Rightarrow> int \<Rightarrow> cmd list" where
  "displayRoll ty cfg g xLeft xWidth =
     (let xRight = xCoordinate_t ty (xLeft + xWidth)
      in displayRoll_loop ty cfg g xLeft xRight (PITCH_MIN cfg))"

subsection \<open>The segment history\<close>

record segment_t =
  pitch :: int
  duration :: int
  onset :: int

text \<open>Modelled from the spec: \<open>SegmentBuf::headPtr\<close> is declared in segmentbuf.h and defined
  in segmentbuf.cpp, neither among the sources. The spec gives its contract:
  \<open>segment(index)\<close> returns the segments newest first, index 0 being the most recently
  finalized one, and none once the history is exhausted. The history is the list of
  its segments, newest first; the null pointer is \<open>None\<close>. The index \<open>ii\<close> of the
  loop is a \<open>uint_least8_t\<close>; the model counts in \<open>nat\<close>, for a history of fewer than
  256 segments.
\<close>

definition headPtr :: "segment_t list \<Rightarrow> nat \<Rightarrow> segment_t option" where
  "headPtr segmentBuf ii = (if ii < length segmentBuf then Some (segmentBuf ! ii) else None)"

subsection \<open>The refresh tick\<close>

definition startLen :: int where "startLen = 2"
definition maxLoopTime :: int where "maxLoopTime = 60"

text \<open>
  The \<open>while\<close> loop of \<open>PianoRoll::show\<close>, entered with the index \<open>ii\<close> and the running
  \<open>offset\<close>; it returns the \<open>fillRect\<close> calls of the notes it paints, in order.
\<close>


function show_notes ::
  "ctypes \<Rightarrow> config \<Rightarrow> globals \<Rightarrow> segment_t list \<Rightarrow> int \<Rightarrow> int \<Rightarrow> int \<Rightarrow> nat \<Rightarrow> int
     \<Rightarrow> cmd list option"
where
  "show_notes ty cfg g segmentBuf now t0 drawInMsec ii offset =
     (case headPtr segmentBuf ii of
        None \<Rightarrow> Some []
      | Some note \<Rightarrow>
          if offset > absoluteTime_t ty (now - drawInMsec)
          then (let onset = absoluteTime_t ty (offset - duration note) in
                case time2x ty g onset t0 of
                  None \<Rightarrow> None
                | Some xLeft \<Rightarrow>
                   (case time2x ty g offset t0 of
                      None \<Rightarrow> None
                    | Some xRight \<Rightarrow>
                       (let xWidth = xCoordinate_t ty (xRight - xLeft);
                            yTop = yCoordinate_t ty (pitch2y ty cfg g (pitch note)
                                                     + pitch2pitch (distance g) sdiv 2);
                            yHeight = pitch2pitch (distance g)
                        in case show_notes ty cfg g segmentBuf now t0 drawInMsec (ii + 1)
                                  (absoluteTime_t ty (onset - segment_t.onset note)) of
                             None \<Rightarrow> None
                           | Some rest \<Rightarrow>
                               Some (FillRect (xLeft + startLen) yTop (xWidth - startLen) yHeight COLOR_NOTE
                                     # FillRect xLeft yTop startLen yHeight COLOR_NOTESTART
                                     # rest))))
          else Some [])"
  by pat_completeness auto
termination
  by (relation "measure (\<lambda>(ty, cfg, g, segmentBuf, now, t0, drawInMsec, ii, offset).
                           length segmentBuf - ii)")
     (auto simp: headPtr_def split: if_splits)

declare show_notes.simps [simp del]

text \<open>
  \<open>PianoRoll::show\<close>, with the reading of \<open>millis()\<close> as the argument \<open>now\<close>. The
  operands of \<open>min\<close> for \<open>drawInMsec\<close> are compared as \<open>absoluteTime_t\<close>; \<open>drawInMsec\<close>
  is cast to \<open>xCoordinate_t\<close> ahead of the division, as the source has it.
\<close>

definition PianoRoll_show ::
  "ctypes \<Rightarrow> config \<Rightarrow> globals \<Rightarrow> int \<Rightarrow> int \<Rightarrow> segment_t list \<Rightarrow> cmd list option"
where
  "PianoRoll_show ty cfg g now lastOffset segmentBuf =
     do {
       n \<leftarrow> map_option (absoluteTime_t ty)
              (c_div (absoluteTime_t ty (now - msecStart g)) (msecOnScreen g));
       let t0 = absoluteTime_t ty (n * msecOnScreen g);
       cursor \<leftarrow> time2x ty g now t0;
       let wipe = xCoordinate_t ty
                    (arduino_min (width (display g) sdiv 20) (width (display g) - cursor));
       let drawInMsec = arduino_min (absoluteTime_t ty (MIN_SEGMENT_DURATION cfg + maxLoopTime))
                                    (absoluteTime_t ty ((cursor - X_FIRSTNOTE) * msecPerPixel g));
       drawInPixels \<leftarrow> map_option (xCoordinate_t ty)
                         (c_div (xCoordinate_t ty drawInMsec) (msecPerPixel g));
       notes \<leftarrow> show_notes ty cfg g segmentBuf now t0 drawInMsec 0 lastOffset;
       Some ([FillRect cursor 0 wipe (height (display g)) COLOR_BG,
              DrawFastVLine (cursor + 1) 0 (height (display g)) COLOR_CURSOR,
              FillRect (cursor - drawInPixels) 0 drawInPixels (height (display g)) COLOR_BG]
             @ displayRoll ty cfg g (xCoordinate_t ty (cursor - drawInPixels)) drawInPixels
             @ notes)
     }"

text \<open>\<open>PianoRoll::clear\<close>, with the reading of \<open>millis()\<close> as the argument \<open>now\<close>.\<close>

definition PianoRoll_clear :: "ctypes \<Rightarrow> config \<Rightarrow> globals \<Rightarrow> int \<Rightarrow> cmd list \<times> globals" where
  "PianoRoll_clear ty cfg g now =
     (FillScreen COLOR_BG # displayRoll ty cfg g 0 (width (display g)), g\<lparr>msecStart := now\<rparr>)"

subsection \<open>Configurations and states of the scenarios\<close>

definition scenario_cfg :: config where
  "scenario_cfg = \<lparr>PITCH_MIN = 40, PITCH_MAX = 52, MIN_SEGMENT_DURATION = 40\<rparr>"

text \<open>The same pitch range with a minimum segment duration of 985 ms.\<close>

definition slow_cfg :: config where
  "slow_cfg = \<lparr>PITCH_MIN = 40, PITCH_MAX = 52, MIN_SEGMENT_DURATION = 985\<rparr>"


text \<open>The state after \<open>_resize(312, 130)\<close> with wide types and a \<open>clear\<close> at time \<open>start\<close>.\<close>

definition scenario_globals :: "int \<Rightarrow> globals" where
  "scenario_globals start =
     \<lparr>display = \<lparr>width = 312, height = 130\<rparr>,
      distance = \<lparr>pitch2pitch = 10, bottom2loPitch = 0\<rparr>,
      msecPerPixel = 9, msecOnScreen = 2912, msecStart = start\<rparr>"

text \<open>The state after \<open>_resize(160, 128)\<close>, the size of the ST7735 display after
  \<open>setRotation(3)\<close>, with the types of the Arduino UNO and a \<open>clear\<close> at time \<open>start\<close>.\<close>

definition uno_globals :: "int \<Rightarrow> globals" where
  "uno_globals start =
     \<lparr>display = \<lparr>width = 160, height = 128\<rparr>,
      distance = \<lparr>pitch2pitch = 9, bottom2loPitch = 5\<rparr>,
      msecPerPixel = 19, msecOnScreen = 2912, msecStart = start\<rparr>"

definition scenario_segment :: segment_t where
  "scenario_segment = \<lparr>pitch = 45, duration = 200, onset = 0\<rparr>"

text \<open>An older segment of 150 ms that ended 50 ms before the next one started.\<close>

definition older_segment :: segment_t where
  "older_segment = \<lparr>pitch = 43, duration = 150, onset = 50\<rparr>"

text \<open>
  The values that \<open>PianoRoll::show\<close> gives its locals \<open>t0\<close>, \<open>wipe\<close>, \<open>drawInMsec\<close> and
  \<open>drawInPixels\<close> when its divisions are defined, as expressions of \<open>now\<close> and \<open>cursor\<close>;
  they abbreviate the terms of \<open>PianoRoll_show\<close> in the statements below.
\<close>

abbreviation tick_t0 :: "ctypes \<Rightarrow> globals \<Rightarrow> int \<Rightarrow> int" where
  "tick_t0 ty g now \<equiv>
     absoluteTime_t ty
       (absoluteTime_t ty (absoluteTime_t ty (now - msecStart g) sdiv msecOnScreen g)
        * msecOnScreen g)"

abbreviation tick_wipe :: "ctypes \<Rightarrow> globals \<Rightarrow> int \<Rightarrow> int" where
  "tick_wipe ty g cursor \<equiv>
     xCoordinate_t ty (arduino_min (width (display g) sdiv 20) (width (display g) - cursor))"

abbreviation tick_drawInMsec :: "ctypes \<Rightarrow> config \<Rightarrow> globals \<Rightarrow> int \<Rightarrow> int" where
  "tick_drawInMsec ty cfg g cursor \<equiv>
     arduino_min (absoluteTime_t ty (MIN_SEGMENT_DURATION cfg + maxLoopTime))
                 (absoluteTime_t ty ((cursor - X_FIRSTNOTE) * msecPerPixel g))"

abbreviation tick_drawInPixels :: "ctypes \<Rightarrow> config \<Rightarrow> globals \<Rightarrow> int \<Rightarrow> int" where
  "tick_drawInPixels ty cfg g cursor \<equiv>
     xCoordinate_t ty (xCoordinate_t ty (tick_drawInMsec ty cfg g cursor) sdiv msecPerPixel g)"

section \<open>Properties\<close>

lemmas consts_defs = X_FIRSTNOTE_def CHAR_WIDTH_def CHAR_HEIGHT_def startLen_def maxLoopTime_def
lemmas scen_defs = scenario_cfg_def slow_cfg_def scenario_globals_def uno_globals_def
  scenario_segment_def older_segment_def
lemmas type_defs = xCoordinate_t_def yCoordinate_t_def segmentPitch_t_def segmentRelTime_t_def
  absoluteTime_t_def
lemmas avr_defs = type_defs avr_types_def conv_def

subsection \<open>Arithmetic and conversions\<close>

lemma sdiv_nonneg: "0 \<le> a \<Longrightarrow> 0 < b \<Longrightarrow> a sdiv b = a div (b::int)"
  by (simp add: signed_divide_int_def sgn_if)

lemma sdiv_le_factor:
  fixes a b c :: int
  assumes "0 < b" and "0 \<le> c" and "a \<le> c * b"
  shows "a sdiv b \<le> c"
proof (cases "0 \<le> a")
  case True
  have "a div b \<le> (c * b) div b"
    using assms by (intro zdiv_mono1) simp_all
  with True assms show ?thesis
    by (simp add: sdiv_nonneg)
next
  case False
  then have "a sdiv b = - (\<bar>a\<bar> div b)"
    using assms(1) by (simp add: signed_divide_int_def sgn_if)
  moreover have "0 \<le> \<bar>a\<bar> div b"
    using assms(1) by (simp add: pos_imp_zdiv_nonneg_iff)
  ultimately show ?thesis
    using assms(2) by simp
qed

lemma arduino_min_eq: "arduino_min a b = min a b"
  by (simp add: arduino_min_def min_def)

lemma wide_conv [simp]:
  "xCoordinate_t wide_types v = v" "yCoordinate_t wide_types v = v"
  "segmentPitch_t wide_types v = v" "segmentRelTime_t wide_types v = v"
  "absoluteTime_t wide_types v = v"
  by (simp_all add: type_defs wide_types_def conv_def)

lemma representable_None [simp]: "representable None v"
  by (simp add: representable_def conv_def)

lemma representable_Some: "representable (Some n) v = (0 \<le> v \<and> v < 2 ^ n)"
proof -
  have "(0::int) < 2 ^ n"
    by simp
  then show ?thesis
    unfolding representable_def conv_def option.case zmod_trivial_iff by linarith
qed

lemma conv_nonneg: "0 \<le> v \<Longrightarrow> 0 \<le> conv b v"
  by (cases b) (simp_all add: conv_def)

lemma conv_le: "0 \<le> v \<Longrightarrow> conv b v \<le> v"
  by (cases b) (simp_all add: conv_def zmod_le_nonneg_dividend)

lemma representable_diff:
  assumes "representable b v" and "representable b u" and "u < v"
  shows "representable b (v - u)"
  using assms by (cases b) (auto simp: representable_Some)

lemma representable_summand:
  assumes "representable b (a + q)" and "0 \<le> a" and "0 \<le> q"
  shows "representable b q"
  using assms by (cases b) (auto simp: representable_Some)

subsection \<open>Geometry\<close>

lemma time2x_defined:
  "msecPerPixel g \<noteq> 0 \<Longrightarrow>
     time2x ty g t t0 =
       Some (xCoordinate_t ty (X_FIRSTNOTE +
               (if t0 < absoluteTime_t ty (t - msecStart g)
                then xCoordinate_t ty
                       (absoluteTime_t ty (absoluteTime_t ty (t - msecStart g) - t0)
                          sdiv msecPerPixel g)
                else 0)))"
  by (simp add: time2x_def c_div_def)

lemma time2x_exact:
  assumes "0 < msecPerPixel g"
    and "representable (absoluteTime_bits ty) (t - msecStart g)"
    and "representable (absoluteTime_bits ty) t0"
    and "representable (xCoordinate_bits ty) X_FIRSTNOTE"
    and "t0 < t - msecStart g \<Longrightarrow>
           representable (xCoordinate_bits ty)
             (X_FIRSTNOTE + (t - msecStart g - t0) div msecPerPixel g)"
  shows "time2x ty g t t0 =
           Some (X_FIRSTNOTE + (if t0 < t - msecStart g
                                then (t - msecStart g - t0) div msecPerPixel g else 0))"
proof (cases "t0 < t - msecStart g")
  case False
  with assms(1,2,4) show ?thesis
    by (simp add: time2x_defined representable_def type_defs)
next
  case True
  let ?q = "(t - msecStart g - t0) div msecPerPixel g"
  have d: "representable (absoluteTime_bits ty) (t - msecStart g - t0)"
    using assms(2,3) True by (rule representable_diff)
  have q0: "0 \<le> ?q"
    using True assms(1) by (simp add: pos_imp_zdiv_nonneg_iff)
  have s: "representable (xCoordinate_bits ty) (X_FIRSTNOTE + ?q)"
    using assms(5) True by simp
  have "0 \<le> X_FIRSTNOTE"
    by (simp add: X_FIRSTNOTE_def CHAR_WIDTH_def)
  with s have q: "representable (xCoordinate_bits ty) ?q"
    using q0 by (rule representable_summand)
  from True assms(1,2) d q s show ?thesis
    by (simp add: time2x_defined representable_def type_defs sdiv_nonneg)
qed

lemma time2x_lower:
  assumes "0 < msecPerPixel g" and "time2x wide_types g t t0 = Some x"
  shows "X_FIRSTNOTE \<le> x"
proof -
  have "0 \<le> (t - msecStart g - t0) div msecPerPixel g" if "t0 < t - msecStart g"
    using that assms(1) by (simp add: pos_imp_zdiv_nonneg_iff)
  with assms show ?thesis
    by (auto simp: time2x_defined sdiv_nonneg split: if_splits)
qed





text \<open>
  C2, as the spec states it, fails with the types of the Arduino UNO. After a \<open>clear\<close> at
  time 1000, \<open>_time2x(900, 0)\<close> has \<open>t0 \<le> t\<close> and \<open>t - msecStart \<le> t0\<close>, yet the unsigned
  difference wraps and the result is 101, not \<open>X_FIRSTNOTE\<close>; and \<open>_time2x(5750, 0)\<close> is
  6, below \<open>X_FIRSTNOTE\<close>, because the column 262 does not fit \<open>xCoordinate_t\<close>.
\<close>

theorem time2x_counterexample:
  "X_FIRSTNOTE = 12
   \<and> time2x avr_types (uno_globals 1000) 900 0 = Some 101
   \<and> time2x avr_types (uno_globals 1000) 5750 0 = Some 6"
  by (simp add: time2x_def c_div_def uno_globals_def X_FIRSTNOTE_def CHAR_WIDTH_def avr_defs)

text \<open>
  C2, amended. Let the time scale \<open>_msecPerPixel\<close> be positive, \<open>t0\<close> and \<open>t - msecStart\<close>
  be values of \<open>absoluteTime_t\<close> (for an unsigned type: \<open>t\<close> is not before \<open>msecStart\<close>),
  and \<open>X_FIRSTNOTE\<close> and the column \<open>X_FIRSTNOTE + (t - msecStart - t0) / msecPerPixel\<close>
  be values of \<open>xCoordinate_t\<close>. Then \<open>_time2x(t, t0)\<close> is defined and at least
  \<open>X_FIRSTNOTE\<close>; it is exactly \<open>X_FIRSTNOTE\<close> when \<open>t - msecStart \<le> t0\<close>, and
  \<open>X_FIRSTNOTE + (t - msecStart - t0) / msecPerPixel\<close>, the division rounding down,
  otherwise. With wide types this holds for all \<open>t\<close> and \<open>t0\<close>.
\<close>

theorem time2x_contract:
  assumes "0 < msecPerPixel g"
    and "representable (absoluteTime_bits ty) (t - msecStart g)"
    and "representable (absoluteTime_bits ty) t0"
    and "representable (xCoordinate_bits ty) X_FIRSTNOTE"
    and "t0 < t - msecStart g \<Longrightarrow>
           representable (xCoordinate_bits ty)
             (X_FIRSTNOTE + (t - msecStart g - t0) div msecPerPixel g)"
  shows "\<exists>x. time2x ty g t t0 = Some x \<and> X_FIRSTNOTE \<le> x
           \<and> (t - msecStart g \<le> t0 \<longrightarrow> x = X_FIRSTNOTE)
           \<and> (t0 < t - msecStart g \<longrightarrow>
                 x = X_FIRSTNOTE + (t - msecStart g - t0) div msecPerPixel g)"
proof -
  have "0 \<le> (t - msecStart g - t0) div msecPerPixel g" if "t0 < t - msecStart g"
    using that assms(1) by (simp add: pos_imp_zdiv_nonneg_iff)
  then show ?thesis
    by (auto simp: time2x_exact [OF assms])
qed

theorem time2x_contract_witness:
  "time2x avr_types (uno_globals 1000) 1100 0 = Some 17
   \<and> time2x avr_types (uno_globals 1000) 1000 0 = Some 12
   \<and> time2x wide_types (scenario_globals 1000) 1100 0 = Some 23
   \<and> time2x wide_types (scenario_globals 1000) 900 0 = Some 12"
  using time2x_contract [of "uno_globals 1000" avr_types 1100 0]
        time2x_contract [of "uno_globals 1000" avr_types 1000 0]
        time2x_contract [of "scenario_globals 1000" wide_types 1100 0]
        time2x_contract [of "scenario_globals 1000" wide_types 900 0]
  by (simp add: scenario_globals_def uno_globals_def X_FIRSTNOTE_def CHAR_WIDTH_def
        avr_types_def wide_types_def representable_Some)



subsection \<open>The note segment renderer\<close>

lemma show_notes_stop_exhausted:
  "headPtr segmentBuf ii = None \<Longrightarrow>
     show_notes ty cfg g segmentBuf now t0 drawInMsec ii offset = Some []"
  by (subst show_notes.simps) simp

lemma show_notes_stop_offset:
  "offset \<le> absoluteTime_t ty (now - drawInMsec) \<Longrightarrow>
     show_notes ty cfg g segmentBuf now t0 drawInMsec ii offset = Some []"
  by (subst show_notes.simps) (simp split: option.split)

text \<open>The loop returns whenever the time scale is not zero.\<close>

lemma show_notes_defined:
  assumes "msecPerPixel g \<noteq> 0"
  shows "\<exists>r. show_notes ty cfg g segmentBuf now t0 drawInMsec ii offset = Some r"
proof (induction "length segmentBuf - ii" arbitrary: ii offset)
  case 0
  then have "headPtr segmentBuf ii = None"
    by (simp add: headPtr_def)
  then show ?case
    by (simp add: show_notes_stop_exhausted)
next
  case (Suc k)
  then have "k = length segmentBuf - (ii + 1)"
    by simp
  from Suc.hyps(1) [OF this] obtain r
    where "show_notes ty cfg g segmentBuf now t0 drawInMsec (ii + 1)
             (absoluteTime_t ty (absoluteTime_t ty (offset - duration (segmentBuf ! ii))
                                 - segment_t.onset (segmentBuf ! ii))) = Some r"
    by blast
  with assms show ?case
    by (subst show_notes.simps) (simp add: headPtr_def time2x_defined Let_def)
qed

lemma show_notes_step:
  assumes "msecPerPixel g \<noteq> 0" and "headPtr segmentBuf ii = Some sg"
    and "absoluteTime_t ty (now - drawInMsec) < offset"
  shows "\<exists>xLeft xRight rest.
           time2x ty g (absoluteTime_t ty (offset - duration sg)) t0 = Some xLeft
         \<and> time2x ty g offset t0 = Some xRight
         \<and> show_notes ty cfg g segmentBuf now t0 drawInMsec (ii + 1)
              (absoluteTime_t ty (absoluteTime_t ty (offset - duration sg) - segment_t.onset sg))
             = Some rest
         \<and> show_notes ty cfg g segmentBuf now t0 drawInMsec ii offset
             = Some (FillRect (xLeft + startLen)
                       (yCoordinate_t ty (pitch2y ty cfg g (pitch sg)
                                          + pitch2pitch (distance g) sdiv 2))
                       (xCoordinate_t ty (xRight - xLeft) - startLen)
                       (pitch2pitch (distance g)) COLOR_NOTE
                     # FillRect xLeft
                         (yCoordinate_t ty (pitch2y ty cfg g (pitch sg)
                                            + pitch2pitch (distance g) sdiv 2))
                         startLen (pitch2pitch (distance g)) COLOR_NOTESTART
                     # rest)"
proof -
  obtain rest where "show_notes ty cfg g segmentBuf now t0 drawInMsec (ii + 1)
              (absoluteTime_t ty (absoluteTime_t ty (offset - duration sg) - segment_t.onset sg))
             = Some rest"
    using show_notes_defined [OF assms(1)] by blast
  with assms show ?thesis
    by (subst (2) show_notes.simps) (simp add: time2x_defined Let_def)
qed

text \<open>With a screen time and a time scale that are not zero, the tick is defined, and
  its commands are those of the source in their order.\<close>

lemma PianoRoll_show_defined:
  assumes "msecOnScreen g \<noteq> 0" and "msecPerPixel g \<noteq> 0"
  shows "\<exists>cursor rects.
           time2x ty g now (tick_t0 ty g now) = Some cursor
         \<and> show_notes ty cfg g segmentBuf now (tick_t0 ty g now)
              (tick_drawInMsec ty cfg g cursor) 0 lastOffset = Some rects
         \<and> PianoRoll_show ty cfg g now lastOffset segmentBuf
             = Some ([FillRect cursor 0 (tick_wipe ty g cursor) (height (display g)) COLOR_BG,
                      DrawFastVLine (cursor + 1) 0 (height (display g)) COLOR_CURSOR,
                      FillRect (cursor - tick_drawInPixels ty cfg g cursor) 0
                        (tick_drawInPixels ty cfg g cursor) (height (display g)) COLOR_BG]
                     @ displayRoll ty cfg g
                         (xCoordinate_t ty (cursor - tick_drawInPixels ty cfg g cursor))
                         (tick_drawInPixels ty cfg g cursor)
                     @ rects)"
proof -
  obtain cursor where cursor: "time2x ty g now (tick_t0 ty g now) = Some cursor"
    using assms(2) by (simp add: time2x_defined)
  obtain rest where rest: "show_notes ty cfg g segmentBuf now (tick_t0 ty g now)
              (tick_drawInMsec ty cfg g cursor) 0 lastOffset = Some rest"
    using show_notes_defined [OF assms(2)] by blast
  show ?thesis
    using assms cursor rest
    by (simp add: PianoRoll_show_def c_div_def Let_def)
qed


text \<open>
  C3, as the spec states it, fails when the scroll epoch \<open>msecStart\<close> is not 0. After a
  \<open>clear\<close> at time 1000, with the one-segment history and \<open>lastOffset = msecStart + 2000\<close>
  inside the trailing window, \<open>_time2x(1800, t0) = 100\<close> and \<open>_time2x(2000, t0) = 123\<close>,
  but the bar that is drawn spans the columns 212 to 234: the onset is
  \<open>lastOffset - 200 = 2800\<close>, not 1800. The types of the Arduino UNO give the same bar.
  The last conjunct is the whole tick at \<open>now = 3010\<close>, which runs the loop with
  \<open>t0 = 0\<close> and \<open>drawInMsec = 100\<close>.
\<close>

theorem show_notes_scenario_counterexample:
  "msecStart (scenario_globals 1000) + 2000 = 3000
   \<and> time2x wide_types (scenario_globals 1000) 1800 0 = Some 100
   \<and> time2x wide_types (scenario_globals 1000) 2000 0 = Some 123
   \<and> show_notes wide_types scenario_cfg (scenario_globals 1000) [scenario_segment] 3010 0 100 0 3000
       = Some [FillRect 214 85 20 10 COLOR_NOTE, FillRect 212 85 2 10 COLOR_NOTESTART]
   \<and> show_notes wide_types scenario_cfg (scenario_globals 1000) [scenario_segment] 3010 0 100 0 3000
       \<noteq> Some [FillRect (100 + startLen) 85 (123 - 100 - startLen) 10 COLOR_NOTE,
                FillRect 100 85 startLen 10 COLOR_NOTESTART]
   \<and> show_notes avr_types scenario_cfg (scenario_globals 1000) [scenario_segment] 3010 0 100 0 3000
       = Some [FillRect 214 85 20 10 COLOR_NOTE, FillRect 212 85 2 10 COLOR_NOTESTART]
   \<and> PianoRoll_show wide_types scenario_cfg (scenario_globals 1000) 3010 3000 [scenario_segment]
       = Some ([FillRect 235 0 15 130 COLOR_BG, DrawFastVLine 236 0 130 COLOR_CURSOR,
                FillRect 224 0 11 130 COLOR_BG]
               @ displayRoll wide_types scenario_cfg (scenario_globals 1000) 224 11
               @ [FillRect 214 85 20 10 COLOR_NOTE, FillRect 212 85 2 10 COLOR_NOTESTART])"
  by (simp add: PianoRoll_show_def arduino_min_def show_notes.simps headPtr_def time2x_def c_div_def
        pitch2y_def scen_defs consts_defs avr_defs wide_types_def)

text \<open>
  C3, amended. With a screen time and a time scale that are not zero, the tick runs the
  loop from the newest segment (index 0) with the running offset \<open>lastOffset\<close>, its own
  \<open>t0\<close> and its own \<open>drawInMsec\<close>, and the note rectangles are the last commands of the
  tick. A pass of the loop for a segment inside the trailing window computes the onset
  as \<open>offset - duration\<close>, paints the bar from \<open>_time2x(onset, t0)\<close> to
  \<open>_time2x(offset, t0)\<close> (the body from \<open>xLeft + startLen\<close>, then the onset marker of
  \<open>startLen\<close> pixels at \<open>xLeft\<close>) and goes on to the next older segment with
  \<open>offset = onset - segment.onset\<close>. For the one-segment history
  \<open>[{pitch: 45, duration: 200, onset: 0}]\<close> with \<open>lastOffset = msecStart + 2000\<close> inside
  the trailing window (and \<open>msecStart + 1800\<close> a value of \<open>absoluteTime_t\<close>), exactly
  one bar is drawn, with onset \<open>msecStart + 1800\<close>, from \<open>_time2x(msecStart + 1800, t0)\<close>
  to \<open>_time2x(msecStart + 2000, t0)\<close>.
\<close>

theorem show_notes_walk:
  assumes "msecPerPixel g \<noteq> 0"
  shows "(msecOnScreen g \<noteq> 0 \<longrightarrow>
            (\<exists>cursor rects.
                time2x ty g now (tick_t0 ty g now) = Some cursor
              \<and> show_notes ty cfg g segmentBuf now (tick_t0 ty g now)
                   (tick_drawInMsec ty cfg g cursor) 0 lastOffset = Some rects
              \<and> PianoRoll_show ty cfg g now lastOffset segmentBuf
                  = Some ([FillRect cursor 0 (tick_wipe ty g cursor) (height (display g)) COLOR_BG,
                           DrawFastVLine (cursor + 1) 0 (height (display g)) COLOR_CURSOR,
                           FillRect (cursor - tick_drawInPixels ty cfg g cursor) 0
                             (tick_drawInPixels ty cfg g cursor) (height (display g)) COLOR_BG]
                          @ displayRoll ty cfg g
                              (xCoordinate_t ty (cursor - tick_drawInPixels ty cfg g cursor))
                              (tick_drawInPixels ty cfg g cursor)
                          @ rects)))
       \<and> (\<forall>note. headPtr segmentBuf ii = Some note
                  \<and> absoluteTime_t ty (now - drawInMsec) < offset \<longrightarrow>
            (\<exists>xLeft xRight rest.
                time2x ty g (absoluteTime_t ty (offset - duration note)) t0 = Some xLeft
              \<and> time2x ty g offset t0 = Some xRight
              \<and> show_notes ty cfg g segmentBuf now t0 drawInMsec (ii + 1)
                   (absoluteTime_t ty (absoluteTime_t ty (offset - duration note)
                                       - segment_t.onset note)) = Some rest
              \<and> show_notes ty cfg g segmentBuf now t0 drawInMsec ii offset
                  = Some (FillRect (xLeft + startLen)
                            (yCoordinate_t ty (pitch2y ty cfg g (pitch note)
                                               + pitch2pitch (distance g) sdiv 2))
                            (xCoordinate_t ty (xRight - xLeft) - startLen)
                            (pitch2pitch (distance g)) COLOR_NOTE
                          # FillRect xLeft
                              (yCoordinate_t ty (pitch2y ty cfg g (pitch note)
                                                 + pitch2pitch (distance g) sdiv 2))
                              startLen (pitch2pitch (distance g)) COLOR_NOTESTART
                          # rest)))
       \<and> (absoluteTime_t ty (now - drawInMsec) < msecStart g + 2000
           \<and> representable (absoluteTime_bits ty) (msecStart g + 1800) \<longrightarrow>
            (\<exists>xLeft xRight.
                time2x ty g (msecStart g + 1800) t0 = Some xLeft
              \<and> time2x ty g (msecStart g + 2000) t0 = Some xRight
              \<and> show_notes ty cfg g [scenario_segment] now t0 drawInMsec 0 (msecStart g + 2000)
                  = Some [FillRect (xLeft + startLen)
                            (yCoordinate_t ty (pitch2y ty cfg g 45 + pitch2pitch (distance g) sdiv 2))
                            (xCoordinate_t ty (xRight - xLeft) - startLen)
                            (pitch2pitch (distance g)) COLOR_NOTE,
                          FillRect xLeft
                            (yCoordinate_t ty (pitch2y ty cfg g 45 + pitch2pitch (distance g) sdiv 2))
                            startLen (pitch2pitch (distance g)) COLOR_NOTESTART]))"
proof (intro conjI allI impI)
  assume "msecOnScreen g \<noteq> 0"
  then show "\<exists>cursor rects.
                time2x ty g now (tick_t0 ty g now) = Some cursor
              \<and> show_notes ty cfg g segmentBuf now (tick_t0 ty g now)
                   (tick_drawInMsec ty cfg g cursor) 0 lastOffset = Some rects
              \<and> PianoRoll_show ty cfg g now lastOffset segmentBuf
                  = Some ([FillRect cursor 0 (tick_wipe ty g cursor) (height (display g)) COLOR_BG,
                           DrawFastVLine (cursor + 1) 0 (height (display g)) COLOR_CURSOR,
                           FillRect (cursor - tick_drawInPixels ty cfg g cursor) 0
                             (tick_drawInPixels ty cfg g cursor) (height (display g)) COLOR_BG]
                          @ displayRoll ty cfg g
                              (xCoordinate_t ty (cursor - tick_drawInPixels ty cfg g cursor))
                              (tick_drawInPixels ty cfg g cursor)
                          @ rects)"
    using assms by (rule PianoRoll_show_defined)
next
  fix sg
  assume "headPtr segmentBuf ii = Some sg \<and> absoluteTime_t ty (now - drawInMsec) < offset"
  then show "\<exists>xLeft xRight rest.
                time2x ty g (absoluteTime_t ty (offset - duration sg)) t0 = Some xLeft
              \<and> time2x ty g offset t0 = Some xRight
              \<and> show_notes ty cfg g segmentBuf now t0 drawInMsec (ii + 1)
                   (absoluteTime_t ty (absoluteTime_t ty (offset - duration sg)
                                       - segment_t.onset sg)) = Some rest
              \<and> show_notes ty cfg g segmentBuf now t0 drawInMsec ii offset
                  = Some (FillRect (xLeft + startLen)
                            (yCoordinate_t ty (pitch2y ty cfg g (pitch sg)
                                               + pitch2pitch (distance g) sdiv 2))
                            (xCoordinate_t ty (xRight - xLeft) - startLen)
                            (pitch2pitch (distance g)) COLOR_NOTE
                          # FillRect xLeft
                              (yCoordinate_t ty (pitch2y ty cfg g (pitch sg)
                                                 + pitch2pitch (distance g) sdiv 2))
                              startLen (pitch2pitch (distance g)) COLOR_NOTESTART
                          # rest)"
    using show_notes_step [OF assms] by blast
next
  assume a: "absoluteTime_t ty (now - drawInMsec) < msecStart g + 2000
           \<and> representable (absoluteTime_bits ty) (msecStart g + 1800)"
  then have inside: "absoluteTime_t ty (now - drawInMsec) < msecStart g + 2000"
    by simp
  have on: "absoluteTime_t ty (msecStart g + 2000 - duration scenario_segment) = msecStart g + 1800"
    using a by (simp add: representable_def absoluteTime_t_def scenario_segment_def add.commute)
  have hd: "headPtr [scenario_segment] 0 = Some scenario_segment"
    by (simp add: headPtr_def)
  have "headPtr [scenario_segment] (0 + 1) = None"
    by (simp add: headPtr_def)
  then have stop: "show_notes ty cfg g [scenario_segment] now t0 drawInMsec (0 + 1) off = Some []"
    for off
    by (rule show_notes_stop_exhausted)
  from show_notes_step [OF assms hd inside, where cfg = cfg and ?t0.0 = t0]
  show "\<exists>xLeft xRight.
                time2x ty g (msecStart g + 1800) t0 = Some xLeft
              \<and> time2x ty g (msecStart g + 2000) t0 = Some xRight
              \<and> show_notes ty cfg g [scenario_segment] now t0 drawInMsec 0 (msecStart g + 2000)
                  = Some [FillRect (xLeft + startLen)
                            (yCoordinate_t ty (pitch2y ty cfg g 45 + pitch2pitch (distance g) sdiv 2))
                            (xCoordinate_t ty (xRight - xLeft) - startLen)
                            (pitch2pitch (distance g)) COLOR_NOTE,
                          FillRect xLeft
                            (yCoordinate_t ty (pitch2y ty cfg g 45 + pitch2pitch (distance g) sdiv 2))
                            startLen (pitch2pitch (distance g)) COLOR_NOTESTART]"
    unfolding on stop by (auto simp: scenario_segment_def)
qed

theorem show_notes_walk_witness:
  "msecPerPixel (scenario_globals 1000) \<noteq> 0
   \<and> msecOnScreen (scenario_globals 1000) \<noteq> 0
   \<and> headPtr [scenario_segment] 0 = Some scenario_segment
   \<and> (3010::int) - 100 < 3000
   \<and> time2x wide_types (scenario_globals 1000) 2800 0 = Some 212
   \<and> time2x wide_types (scenario_globals 1000) 3000 0 = Some 234
   \<and> show_notes wide_types scenario_cfg (scenario_globals 1000) [scenario_segment] 3010 0 100 0 3000
       = Some [FillRect 214 85 20 10 COLOR_NOTE, FillRect 212 85 2 10 COLOR_NOTESTART]
   \<and> show_notes avr_types scenario_cfg (uno_globals 1000) [scenario_segment] 3010 0 100 0 3000
       = Some [FillRect 108 82 9 9 COLOR_NOTE, FillRect 106 82 2 9 COLOR_NOTESTART]"
  using show_notes_walk [where g = "scenario_globals 1000" and ty = wide_types
          and cfg = scenario_cfg and segmentBuf = "[scenario_segment]" and ii = 0 and now = 3010
          and drawInMsec = 100 and offset = 3000 and ?t0.0 = 0 and lastOffset = 3000]
        show_notes_walk [where g = "uno_globals 1000" and ty = avr_types
          and cfg = scenario_cfg and segmentBuf = "[scenario_segment]" and ii = 0 and now = 3010
          and drawInMsec = 100 and offset = 3000 and ?t0.0 = 0 and lastOffset = 3000]
  by (simp add: headPtr_def time2x_def c_div_def pitch2y_def scen_defs consts_defs avr_defs
        wide_types_def representable_def)

text \<open>
  C5. The loop, entered with the index \<open>ii\<close> and the running \<open>offset\<close>, stops without
  painting exactly when the history accessor returns none or \<open>offset \<le> now - drawInMsec\<close>
  (the difference computed in \<open>absoluteTime_t\<close>). Otherwise, with a time scale that is not
  zero, it paints the two rectangles of segment \<open>ii\<close> and goes on with the next older
  segment, whose rectangles follow. Exhaustion is not an error: the loop then returns.
  The empty history has no segment 0, and the renderer then returns at once with no
  rectangle: the tick issues its three controller commands and the grid of the trailing
  span, and nothing else.
\<close>

theorem show_notes_stops:
  "(show_notes ty cfg g segmentBuf now t0 drawInMsec ii offset = Some [])
      = (headPtr segmentBuf ii = None \<or> offset \<le> absoluteTime_t ty (now - drawInMsec))
   \<and> (msecPerPixel g \<noteq> 0 \<longrightarrow>
         (\<forall>note. headPtr segmentBuf ii = Some note
                 \<and> absoluteTime_t ty (now - drawInMsec) < offset \<longrightarrow>
            (\<exists>xLeft xRight rest.
                time2x ty g (absoluteTime_t ty (offset - duration note)) t0 = Some xLeft
              \<and> time2x ty g offset t0 = Some xRight
              \<and> show_notes ty cfg g segmentBuf now t0 drawInMsec (ii + 1)
                   (absoluteTime_t ty (absoluteTime_t ty (offset - duration note)
                                       - segment_t.onset note)) = Some rest
              \<and> show_notes ty cfg g segmentBuf now t0 drawInMsec ii offset
                  = Some (FillRect (xLeft + startLen)
                            (yCoordinate_t ty (pitch2y ty cfg g (pitch note)
                                               + pitch2pitch (distance g) sdiv 2))
                            (xCoordinate_t ty (xRight - xLeft) - startLen)
                            (pitch2pitch (distance g)) COLOR_NOTE
                          # FillRect xLeft
                              (yCoordinate_t ty (pitch2y ty cfg g (pitch note)
                                                 + pitch2pitch (distance g) sdiv 2))
                              startLen (pitch2pitch (distance g)) COLOR_NOTESTART
                          # rest))))
   \<and> headPtr [] 0 = None
   \<and> show_notes ty cfg g [] now t0 drawInMsec 0 lastOffset = Some []
   \<and> (msecOnScreen g \<noteq> 0 \<and> msecPerPixel g \<noteq> 0 \<longrightarrow>
         (\<exists>cursor.
             time2x ty g now (tick_t0 ty g now) = Some cursor
           \<and> PianoRoll_show ty cfg g now lastOffset []
               = Some ([FillRect cursor 0 (tick_wipe ty g cursor) (height (display g)) COLOR_BG,
                        DrawFastVLine (cursor + 1) 0 (height (display g)) COLOR_CURSOR,
                        FillRect (cursor - tick_drawInPixels ty cfg g cursor) 0
                          (tick_drawInPixels ty cfg g cursor) (height (display g)) COLOR_BG]
                       @ displayRoll ty cfg g
                           (xCoordinate_t ty (cursor - tick_drawInPixels ty cfg g cursor))
                           (tick_drawInPixels ty cfg g cursor))))"
proof (intro conjI impI allI)
  show "(show_notes ty cfg g segmentBuf now t0 drawInMsec ii offset = Some [])
      = (headPtr segmentBuf ii = None \<or> offset \<le> absoluteTime_t ty (now - drawInMsec))"
    by (subst show_notes.simps) (auto simp: Let_def split: option.splits)
  show "\<exists>xLeft xRight rest.
                time2x ty g (absoluteTime_t ty (offset - duration sg)) t0 = Some xLeft
              \<and> time2x ty g offset t0 = Some xRight
              \<and> show_notes ty cfg g segmentBuf now t0 drawInMsec (ii + 1)
                   (absoluteTime_t ty (absoluteTime_t ty (offset - duration sg)
                                       - segment_t.onset sg)) = Some rest
              \<and> show_notes ty cfg g segmentBuf now t0 drawInMsec ii offset
                  = Some (FillRect (xLeft + startLen)
                            (yCoordinate_t ty (pitch2y ty cfg g (pitch sg)
                                               + pitch2pitch (distance g) sdiv 2))
                            (xCoordinate_t ty (xRight - xLeft) - startLen)
                            (pitch2pitch (distance g)) COLOR_NOTE
                          # FillRect xLeft
                              (yCoordinate_t ty (pitch2y ty cfg g (pitch sg)
                                                 + pitch2pitch (distance g) sdiv 2))
                              startLen (pitch2pitch (distance g)) COLOR_NOTESTART
                          # rest)"
    if "msecPerPixel g \<noteq> 0"
      and "headPtr segmentBuf ii = Some sg \<and> absoluteTime_t ty (now - drawInMsec) < offset"
    for sg
    using show_notes_step [OF that(1)] that(2) by blast
  show empty: "headPtr [] 0 = None"
    by (simp add: headPtr_def)
  then show "show_notes ty cfg g [] now t0 drawInMsec 0 lastOffset = Some []"
    by (rule show_notes_stop_exhausted)
  show "\<exists>cursor.
             time2x ty g now (tick_t0 ty g now) = Some cursor
           \<and> PianoRoll_show ty cfg g now lastOffset []
               = Some ([FillRect cursor 0 (tick_wipe ty g cursor) (height (display g)) COLOR_BG,
                        DrawFastVLine (cursor + 1) 0 (height (display g)) COLOR_CURSOR,
                        FillRect (cursor - tick_drawInPixels ty cfg g cursor) 0
                          (tick_drawInPixels ty cfg g cursor) (height (display g)) COLOR_BG]
                       @ displayRoll ty cfg g
                           (xCoordinate_t ty (cursor - tick_drawInPixels ty cfg g cursor))
                           (tick_drawInPixels ty cfg g cursor))"
    if "msecOnScreen g \<noteq> 0 \<and> msecPerPixel g \<noteq> 0"
  proof -
    from that have a: "msecOnScreen g \<noteq> 0" and b: "msecPerPixel g \<noteq> 0"
      by simp_all
    from PianoRoll_show_defined [OF a b, of ty now cfg "[]" lastOffset] show ?thesis
      by (auto simp: show_notes_stop_exhausted [OF empty])
  qed
qed

theorem show_notes_stops_witness:
  "msecOnScreen (scenario_globals 1000) \<noteq> 0 \<and> msecPerPixel (scenario_globals 1000) \<noteq> 0
   \<and> headPtr [scenario_segment, older_segment] 0 = Some scenario_segment
   \<and> headPtr [scenario_segment, older_segment] 1 = Some older_segment
   \<and> headPtr [scenario_segment, older_segment] 2 = None
   \<and> show_notes wide_types scenario_cfg (scenario_globals 1000) [scenario_segment, older_segment]
        3010 0 400 0 3000
       = Some [FillRect 214 85 20 10 COLOR_NOTE, FillRect 212 85 2 10 COLOR_NOTESTART,
               FillRect 197 105 15 10 COLOR_NOTE, FillRect 195 105 2 10 COLOR_NOTESTART]
   \<and> show_notes avr_types scenario_cfg (uno_globals 1000) [scenario_segment, older_segment]
        3010 0 400 0 3000
       = Some [FillRect 108 82 9 9 COLOR_NOTE, FillRect 106 82 2 9 COLOR_NOTESTART,
               FillRect 100 100 6 9 COLOR_NOTE, FillRect 98 100 2 9 COLOR_NOTESTART]
   \<and> show_notes wide_types scenario_cfg (scenario_globals 1000) [scenario_segment, older_segment]
        3010 0 100 0 3000
       = Some [FillRect 214 85 20 10 COLOR_NOTE, FillRect 212 85 2 10 COLOR_NOTESTART]
   \<and> show_notes wide_types scenario_cfg (scenario_globals 1000) [scenario_segment, older_segment]
        3200 0 100 0 3000 = Some []
   \<and> show_notes wide_types scenario_cfg (scenario_globals 1000) [] 3010 0 100 0 3000 = Some []"
  using show_notes_stops [where ty = wide_types and cfg = scenario_cfg and g = "scenario_globals 1000"
          and segmentBuf = "[scenario_segment, older_segment]" and now = 3010 and ?t0.0 = 0
          and drawInMsec = 400 and ii = 0 and offset = 3000 and lastOffset = 3000]
        show_notes_stops [where ty = wide_types and cfg = scenario_cfg and g = "scenario_globals 1000"
          and segmentBuf = "[scenario_segment, older_segment]" and now = 3010 and ?t0.0 = 0
          and drawInMsec = 400 and ii = 1 and offset = 2800 and lastOffset = 3000]
        show_notes_stops [where ty = avr_types and cfg = scenario_cfg and g = "uno_globals 1000"
          and segmentBuf = "[scenario_segment, older_segment]" and now = 3010 and ?t0.0 = 0
          and drawInMsec = 400 and ii = 0 and offset = 3000 and lastOffset = 3000]
  by (simp add: show_notes.simps headPtr_def time2x_def c_div_def pitch2y_def scen_defs consts_defs
        avr_defs wide_types_def)

text \<open>
  C10. If \<open>lastOffset \<le> now - drawInMsec\<close> (the difference computed in \<open>absoluteTime_t\<close>)
  when the loop is entered, it paints no note rectangle, whatever the history holds: the
  bound is tested with \<open>offset = lastOffset\<close> before the first segment is painted. So a
  tick (with a screen time and a time scale that are not zero) whose \<open>lastOffset\<close> is at
  most \<open>now\<close> minus its trailing window issues its three controller commands and the
  grid of the trailing span, and nothing else.
\<close>

theorem show_notes_outside_window:
  "(lastOffset \<le> absoluteTime_t ty (now - drawInMsec) \<longrightarrow>
      show_notes ty cfg g segmentBuf now t0 drawInMsec 0 lastOffset = Some [])
   \<and> (msecOnScreen g \<noteq> 0 \<and> msecPerPixel g \<noteq> 0 \<longrightarrow>
        (\<exists>cursor window pixels.
            time2x ty g now (tick_t0 ty g now) = Some cursor
          \<and> window = min (absoluteTime_t ty (MIN_SEGMENT_DURATION cfg + maxLoopTime))
                         (absoluteTime_t ty ((cursor - X_FIRSTNOTE) * msecPerPixel g))
          \<and> pixels = xCoordinate_t ty (xCoordinate_t ty window sdiv msecPerPixel g)
          \<and> (lastOffset \<le> absoluteTime_t ty (now - window) \<longrightarrow>
                PianoRoll_show ty cfg g now lastOffset segmentBuf
                  = Some ([FillRect cursor 0 (tick_wipe ty g cursor) (height (display g)) COLOR_BG,
                           DrawFastVLine (cursor + 1) 0 (height (display g)) COLOR_CURSOR,
                           FillRect (cursor - pixels) 0 pixels (height (display g)) COLOR_BG]
                          @ displayRoll ty cfg g (xCoordinate_t ty (cursor - pixels)) pixels))))"
proof (intro conjI impI)
  assume "lastOffset \<le> absoluteTime_t ty (now - drawInMsec)"
  then show "show_notes ty cfg g segmentBuf now t0 drawInMsec 0 lastOffset = Some []"
    by (rule show_notes_stop_offset)
next
  assume "msecOnScreen g \<noteq> 0 \<and> msecPerPixel g \<noteq> 0"
  then have a: "msecOnScreen g \<noteq> 0" and b: "msecPerPixel g \<noteq> 0"
    by simp_all
  from PianoRoll_show_defined [OF a b, of ty now cfg segmentBuf lastOffset]
  show "\<exists>cursor window pixels.
            time2x ty g now (tick_t0 ty g now) = Some cursor
          \<and> window = min (absoluteTime_t ty (MIN_SEGMENT_DURATION cfg + maxLoopTime))
                         (absoluteTime_t ty ((cursor - X_FIRSTNOTE) * msecPerPixel g))
          \<and> pixels = xCoordinate_t ty (xCoordinate_t ty window sdiv msecPerPixel g)
          \<and> (lastOffset \<le> absoluteTime_t ty (now - window) \<longrightarrow>
                PianoRoll_show ty cfg g now lastOffset segmentBuf
                  = Some ([FillRect cursor 0 (tick_wipe ty g cursor) (height (display g)) COLOR_BG,
                           DrawFastVLine (cursor + 1) 0 (height (display g)) COLOR_CURSOR,
                           FillRect (cursor - pixels) 0 pixels (height (display g)) COLOR_BG]
                          @ displayRoll ty cfg g (xCoordinate_t ty (cursor - pixels)) pixels))"
    by (auto simp: arduino_min_eq show_notes_stop_offset)
qed

theorem show_notes_outside_window_witness:
  "(3000::int) \<le> 3200 - 100
   \<and> headPtr [scenario_segment] 0 = Some scenario_segment
   \<and> show_notes wide_types scenario_cfg (scenario_globals 1000) [scenario_segment] 3200 0 100 0 3000
       = Some []
   \<and> show_notes avr_types scenario_cfg (uno_globals 1000) [scenario_segment] 3200 0 100 0 3000
       = Some []
   \<and> msecOnScreen (scenario_globals 1000) \<noteq> 0 \<and> msecPerPixel (scenario_globals 1000) \<noteq> 0
   \<and> time2x wide_types (scenario_globals 1000) 3200 0 = Some 256
   \<and> PianoRoll_show wide_types scenario_cfg (scenario_globals 1000) 3200 3000 [scenario_segment]
       = Some ([FillRect 256 0 15 130 COLOR_BG, DrawFastVLine 257 0 130 COLOR_CURSOR,
                FillRect 245 0 11 130 COLOR_BG]
               @ displayRoll wide_types scenario_cfg (scenario_globals 1000) 245 11)"
  using show_notes_outside_window [where ty = wide_types and cfg = scenario_cfg
          and g = "scenario_globals 1000" and segmentBuf = "[scenario_segment]" and now = 3200
          and ?t0.0 = 0 and drawInMsec = 100 and lastOffset = 3000]
        show_notes_outside_window [where ty = avr_types and cfg = scenario_cfg
          and g = "uno_globals 1000" and segmentBuf = "[scenario_segment]" and now = 3200
          and ?t0.0 = 0 and drawInMsec = 100 and lastOffset = 3000]
  by (auto simp: headPtr_def time2x_def c_div_def arduino_min_def scen_defs consts_defs avr_defs
        wide_types_def)

subsection \<open>The refresh tick\<close>

lemma tick_drawInMsec_le:
  assumes "0 \<le> (cursor - X_FIRSTNOTE) * msecPerPixel g
           \<or> representable (absoluteTime_bits ty) ((cursor - X_FIRSTNOTE) * msecPerPixel g)"
  shows "tick_drawInMsec ty cfg g cursor \<le> (cursor - X_FIRSTNOTE) * msecPerPixel g"
proof -
  have "absoluteTime_t ty ((cursor - X_FIRSTNOTE) * msecPerPixel g)
          \<le> (cursor - X_FIRSTNOTE) * msecPerPixel g"
    using assms by (auto simp: absoluteTime_t_def representable_def conv_le)
  then show ?thesis
    by (simp add: arduino_min_eq)
qed

lemma tick_drawInPixels_le:
  assumes "0 < msecPerPixel g" and "X_FIRSTNOTE \<le> cursor"
    and "xCoordinate_bits ty = None
         \<or> 0 \<le> absoluteTime_t ty (MIN_SEGMENT_DURATION cfg + maxLoopTime)"
  shows "tick_drawInPixels ty cfg g cursor \<le> cursor - X_FIRSTNOTE"
proof -
  let ?B = "(cursor - X_FIRSTNOTE) * msecPerPixel g"
  let ?m = "tick_drawInMsec ty cfg g cursor"
  have B0: "0 \<le> ?B"
    using assms(1,2) by simp
  then have mB: "?m \<le> ?B"
    by (intro tick_drawInMsec_le) simp
  have c0: "0 \<le> cursor - X_FIRSTNOTE"
    using assms(2) by simp
  show ?thesis
  proof (cases "0 \<le> ?m")
    case True
    then have x: "0 \<le> xCoordinate_t ty ?m" "xCoordinate_t ty ?m \<le> ?B"
      using mB conv_le [of ?m "xCoordinate_bits ty"]
      by (simp_all add: xCoordinate_t_def conv_nonneg)
    then have q: "xCoordinate_t ty ?m sdiv msecPerPixel g \<le> cursor - X_FIRSTNOTE"
      using assms(1) c0 by (intro sdiv_le_factor) simp_all
    have "0 \<le> xCoordinate_t ty ?m sdiv msecPerPixel g"
      using x(1) assms(1) by (simp add: sdiv_nonneg pos_imp_zdiv_nonneg_iff)
    then have "xCoordinate_t ty (xCoordinate_t ty ?m sdiv msecPerPixel g)
                 \<le> xCoordinate_t ty ?m sdiv msecPerPixel g"
      unfolding xCoordinate_t_def [of ty "_ sdiv _"] by (rule conv_le)
    with q show ?thesis
      by simp
  next
    case False
    have "0 \<le> absoluteTime_t ty ?B"
      using B0 by (simp add: absoluteTime_t_def conv_nonneg)
    with False have "absoluteTime_t ty (MIN_SEGMENT_DURATION cfg + maxLoopTime) < 0"
      by (simp add: arduino_min_def split: if_splits)
    with assms(3) have "xCoordinate_bits ty = None"
      by auto
    then have id: "xCoordinate_t ty v = v" for v
      by (simp add: xCoordinate_t_def conv_def)
    have "?m sdiv msecPerPixel g \<le> cursor - X_FIRSTNOTE"
      using assms(1) c0 mB by (intro sdiv_le_factor) simp_all
    then show ?thesis
      by (simp add: id)
  qed
qed








text \<open>
  C9. On every tick with a positive time scale (and a screen time that is not zero),
  if the cursor is at least \<open>X_FIRSTNOTE\<close> then \<open>drawInPixels \<le> cursor - X_FIRSTNOTE\<close>, so
  the region that is erased and redrawn, which starts at \<open>cursor - drawInPixels\<close>, does
  not reach left of \<open>X_FIRSTNOTE\<close>. This holds for wide types and for unsigned types that
  wrap (with \<open>MIN_SEGMENT_DURATION + maxLoopTime\<close> not negative as an \<open>absoluteTime_t\<close>,
  which every unsigned type gives); with wide types the cursor is always at least
  \<open>X_FIRSTNOTE\<close>.
\<close>

theorem show_trailing_region:
  assumes "msecOnScreen g \<noteq> 0" and "0 < msecPerPixel g"
  shows "\<exists>cursor drawInPixels c1 c2 rest.
           time2x ty g now (tick_t0 ty g now) = Some cursor
         \<and> PianoRoll_show ty cfg g now lastOffset segmentBuf
             = Some (c1 # c2
                     # FillRect (cursor - drawInPixels) 0 drawInPixels (height (display g)) COLOR_BG
                     # rest)
         \<and> (ty = wide_types \<longrightarrow>
               X_FIRSTNOTE \<le> cursor
             \<and> drawInPixels \<le> cursor - X_FIRSTNOTE
             \<and> X_FIRSTNOTE \<le> cursor - drawInPixels)
         \<and> (X_FIRSTNOTE \<le> cursor
              \<and> (xCoordinate_bits ty = None
                   \<or> 0 \<le> absoluteTime_t ty (MIN_SEGMENT_DURATION cfg + maxLoopTime)) \<longrightarrow>
               drawInPixels \<le> cursor - X_FIRSTNOTE
             \<and> X_FIRSTNOTE \<le> cursor - drawInPixels)"
proof -
  from assms have nz: "msecPerPixel g \<noteq> 0"
    by simp
  from PianoRoll_show_defined [OF assms(1) nz, of ty now cfg segmentBuf lastOffset]
  obtain cursor rects where
      c: "time2x ty g now (tick_t0 ty g now) = Some cursor"
    and s: "PianoRoll_show ty cfg g now lastOffset segmentBuf
             = Some ([FillRect cursor 0 (tick_wipe ty g cursor) (height (display g)) COLOR_BG,
                      DrawFastVLine (cursor + 1) 0 (height (display g)) COLOR_CURSOR,
                      FillRect (cursor - tick_drawInPixels ty cfg g cursor) 0
                        (tick_drawInPixels ty cfg g cursor) (height (display g)) COLOR_BG]
                     @ displayRoll ty cfg g
                         (xCoordinate_t ty (cursor - tick_drawInPixels ty cfg g cursor))
                         (tick_drawInPixels ty cfg g cursor)
                     @ rects)"
    by blast
  let ?dp = "tick_drawInPixels ty cfg g cursor"
  have general: "?dp \<le> cursor - X_FIRSTNOTE \<and> X_FIRSTNOTE \<le> cursor - ?dp"
    if "X_FIRSTNOTE \<le> cursor
        \<and> (xCoordinate_bits ty = None
             \<or> 0 \<le> absoluteTime_t ty (MIN_SEGMENT_DURATION cfg + maxLoopTime))"
  proof -
    from that have "?dp \<le> cursor - X_FIRSTNOTE"
      by (intro tick_drawInPixels_le [OF assms(2)]) simp_all
    then show ?thesis
      by simp
  qed
  have wide: "X_FIRSTNOTE \<le> cursor \<and> ?dp \<le> cursor - X_FIRSTNOTE \<and> X_FIRSTNOTE \<le> cursor - ?dp"
    if "ty = wide_types"
  proof -
    have "X_FIRSTNOTE \<le> cursor"
      using c that by (intro time2x_lower [OF assms(2)]) simp
    moreover have "xCoordinate_bits ty = None"
      using that by (simp add: wide_types_def)
    ultimately show ?thesis
      using general by simp
  qed
  have "time2x ty g now (tick_t0 ty g now) = Some cursor
         \<and> PianoRoll_show ty cfg g now lastOffset segmentBuf
             = Some (FillRect cursor 0 (tick_wipe ty g cursor) (height (display g)) COLOR_BG
                     # DrawFastVLine (cursor + 1) 0 (height (display g)) COLOR_CURSOR
                     # FillRect (cursor - ?dp) 0 ?dp (height (display g)) COLOR_BG
                     # (displayRoll ty cfg g (xCoordinate_t ty (cursor - ?dp)) ?dp @ rects))
         \<and> (ty = wide_types \<longrightarrow>
               X_FIRSTNOTE \<le> cursor \<and> ?dp \<le> cursor - X_FIRSTNOTE \<and> X_FIRSTNOTE \<le> cursor - ?dp)
         \<and> (X_FIRSTNOTE \<le> cursor
              \<and> (xCoordinate_bits ty = None
                   \<or> 0 \<le> absoluteTime_t ty (MIN_SEGMENT_DURATION cfg + maxLoopTime)) \<longrightarrow>
               ?dp \<le> cursor - X_FIRSTNOTE \<and> X_FIRSTNOTE \<le> cursor - ?dp)"
    using c s wide general by simp
  then show ?thesis
    by (intro exI)
qed

theorem show_trailing_region_witness:
  "msecOnScreen (scenario_globals 1000) \<noteq> 0 \<and> 0 < msecPerPixel (scenario_globals 1000)
   \<and> time2x wide_types (scenario_globals 1000) 1050 0 = Some 17
   \<and> time2x avr_types (uno_globals 1000) 1050 0 = Some 14
   \<and> (\<exists>drawInPixels c1 c2 rest.
         drawInPixels \<le> 17 - X_FIRSTNOTE \<and> X_FIRSTNOTE \<le> 17 - drawInPixels
       \<and> PianoRoll_show wide_types scenario_cfg (scenario_globals 1000) 1050 1040 [scenario_segment]
           = Some (c1 # c2 # FillRect (17 - drawInPixels) 0 drawInPixels 130 COLOR_BG # rest))
   \<and> (\<exists>drawInPixels c1 c2 rest.
         drawInPixels \<le> 14 - X_FIRSTNOTE \<and> X_FIRSTNOTE \<le> 14 - drawInPixels
       \<and> PianoRoll_show avr_types scenario_cfg (uno_globals 1000) 1050 1040 [scenario_segment]
           = Some (c1 # c2 # FillRect (14 - drawInPixels) 0 drawInPixels 128 COLOR_BG # rest))"
  using show_trailing_region [of "scenario_globals 1000" wide_types 1050 scenario_cfg 1040
          "[scenario_segment]"]
        show_trailing_region [of "uno_globals 1000" avr_types 1050 scenario_cfg 1040
          "[scenario_segment]"]
  by (auto simp: time2x_def c_div_def scen_defs consts_defs avr_defs wide_types_def)

end
